theory Spec2Isabelle
  imports Main "HOL-Library.AList" "HOL-Library.Word"
begin

unbundle bit_operations_syntax

section \<open>Values exchanged with the clients\<close>

text \<open>
  The value \<^verbatim>\<open>request.get_json()\<close> hands to a handler, and the value a handler
  gives to \<^verbatim>\<open>jsonify\<close>. An object is the list of the items of the Python dict
  (keys pairwise different, in insertion order). A Python float is its IEEE-754
  binary64 bit pattern. A Python \<^verbatim>\<open>str\<close> is the list of its code points, as far
  as a \<^typ>\<open>char\<close> goes (U+0000 to U+00FF); the handlers never look inside a text,
  they compare keys and copy values, and the only code point beyond ASCII in the
  program's own texts is U+00F3.
\<close>

datatype json =
    JNull
  | JBool bool
  | JInt int
  | JFloat "64 word"
  | JStr string
  | JArr "json list"
  | JObj "(string \<times> json) list"

text \<open>Python's truth value of a parsed payload, as \<^verbatim>\<open>not data\<close> reads it.\<close>

fun truthy :: "json \<Rightarrow> bool" where
  "truthy JNull = False"
| "truthy (JBool b) = b"
| "truthy (JInt i) = (i \<noteq> 0)"
| "truthy (JFloat w) = (w \<noteq> 0 \<and> w \<noteq> 0x8000000000000000)"
| "truthy (JStr s) = (s \<noteq> [])"
| "truthy (JArr xs) = (xs \<noteq> [])"
| "truthy (JObj kvs) = (kvs \<noteq> [])"

text \<open>\<^verbatim>\<open>type(v).__name__\<close>, as it appears in the text of an AttributeError.\<close>

fun type_name :: "json \<Rightarrow> string" where
  "type_name JNull = ''NoneType''"
| "type_name (JBool b) = ''bool''"
| "type_name (JInt i) = ''int''"
| "type_name (JFloat w) = ''float''"
| "type_name (JStr s) = ''str''"
| "type_name (JArr xs) = ''list''"
| "type_name (JObj kvs) = ''dict''"

text \<open>
  An exception, as far as the handlers look at it: the text \<^verbatim>\<open>str(e)\<close>.
\<close>

datatype exn = Exn string

fun str_exn :: "exn \<Rightarrow> string" where
  "str_exn (Exn m) = m"

text \<open>
  \<^verbatim>\<open>data.get(key, default)\<close>: the lookup of a dict; on any other value the
  attribute \<^verbatim>\<open>get\<close> does not exist and Python raises AttributeError.
\<close>

fun dict_get :: "json \<Rightarrow> string \<Rightarrow> json \<Rightarrow> exn + json" where
  "dict_get (JObj kvs) k d = Inr (case map_of kvs k of None \<Rightarrow> d | Some v \<Rightarrow> v)"
| "dict_get v k d =
     Inl (Exn ([CHR 0x27] @ type_name v @ [CHR 0x27] @ '' object has no attribute ''
               @ [CHR 0x27] @ ''get'' @ [CHR 0x27]))"

section \<open>Identifiers, clock, decimal numbers\<close>

text \<open>
  \<^verbatim>\<open>uuid.uuid4()\<close> draws 128 bits (and fixes the six version and variant bits);
  the model takes the drawn value as an input and allows every 128-bit value.
  \<^verbatim>\<open>.hex\<close> is its 32 lower-case hexadecimal digits, most significant first, and
  \<^verbatim>\<open>str\<close> groups them 8-4-4-4-12.
\<close>

definition hex_digit :: "nat \<Rightarrow> char" where
  "hex_digit n = ''0123456789abcdef'' ! (n mod 16)"

definition uuid_hex :: "128 word \<Rightarrow> string" where
  "uuid_hex u = map (\<lambda>i. hex_digit (unat (drop_bit (4 * (31 - i)) u AND 15))) [0..<32]"

definition uuid_str :: "128 word \<Rightarrow> string" where
  "uuid_str u =
     (let h = uuid_hex u
      in take 8 h @ ''-'' @ take 4 (drop 8 h) @ ''-'' @ take 4 (drop 12 h) @ ''-''
         @ take 4 (drop 16 h) @ ''-'' @ drop 20 h)"

text \<open>The decimal text of a natural number, as an f-string prints an \<^verbatim>\<open>int\<close>.\<close>

definition digit :: "nat \<Rightarrow> char" where
  "digit n = ''0123456789'' ! (n mod 10)"

fun str_nat :: "nat \<Rightarrow> string" where
  "str_nat n =
     (if n < 10 then [digit n]
      else str_nat (n div 10) @ [digit (n mod 10)])"

declare str_nat.simps [simp del]

section \<open>Process state\<close>

text \<open>
  A session is the dict \<^verbatim>\<open>session_data\<close> with its seven fixed keys. The three
  fields read from the payload hold whatever JSON value the client sent.
\<close>

record session_data =
  id' :: string
  user_id :: json
  device_type :: json
  app_version :: json
  created_at :: string
  last_activity :: string
  interaction_count :: int

datatype level = INFO | WARNING | ERROR

text \<open>
  A log message is an f-string: literal text and formatted values in order.
\<close>

datatype piece = Lit string | Val json

type_synonym log_entry = "level \<times> piece list"

text \<open>
  The two module-level dicts and the output of \<^verbatim>\<open>logger\<close>. A dict is the list of
  its items; \<^verbatim>\<open>d[k] = v\<close> is \<^const>\<open>AList.update\<close> (replace in place, or append)
  and \<^verbatim>\<open>len(d)\<close> is the length of the list.
\<close>

record state =
  active_sessions :: "(string \<times> session_data) list"
  pending_validations :: "(string \<times> json) list"
  logger :: "log_entry list"

definition log_to :: "level \<Rightarrow> piece list \<Rightarrow> state \<Rightarrow> state" where
  "log_to lv msg s = s\<lparr>logger := logger s @ [(lv, msg)]\<rparr>"

text \<open>What a handler returns: the body given to \<^verbatim>\<open>jsonify\<close> and the status code.\<close>

type_synonym response = "json \<times> nat"

section \<open>Session creation\<close>

text \<open>
  What \<^verbatim>\<open>request.get_json()\<close> does on the request at hand: it returns the parsed
  value (\<^verbatim>\<open>None\<close> is \<^const>\<open>JNull\<close>) or raises, as the framework does on a body
  that is not JSON text.
\<close>

datatype get_json = Returns json | Raises exn

text \<open>
  What one call of \<^verbatim>\<open>crear_sesion\<close> reads from its environment, in the order of
  the reads: the uuid4 drawn for the default of \<^verbatim>\<open>user_id\<close> (drawn whether or not
  the default is used, as an argument of \<^verbatim>\<open>data.get\<close>), the uuid4 of the session
  id, and the three readings of \<^verbatim>\<open>datetime.now().isoformat()\<close>.
\<close>

record draws =
  uuid_user :: "128 word"
  uuid_session :: "128 word"
  now_created :: string
  now_activity :: string
  now_response :: string

definition o_acute :: char where
  "o_acute = CHR 0xF3"

text \<open>The body of the \<^verbatim>\<open>try\<close> block: \<^const>\<open>Inl\<close> is an exception leaving it.\<close>

definition crear_sesion_try :: "get_json \<Rightarrow> draws \<Rightarrow> state \<Rightarrow> exn + (response \<times> state)" where
  "crear_sesion_try req dr s =
     (case req of
        Raises e \<Rightarrow> Inl e
      | Returns data \<Rightarrow>
          if \<not> truthy data then Inr ((JObj [(''error'', JStr ''Datos requeridos'')], 400), s)
          else
            (case dict_get data ''user_id'' (JStr (''user_'' @ take 8 (uuid_hex (uuid_user dr)))) of
               Inl e \<Rightarrow> Inl e
             | Inr uid \<Rightarrow>
            (case dict_get data ''device_type'' (JStr ''unknown'') of
               Inl e \<Rightarrow> Inl e
             | Inr dev \<Rightarrow>
            (case dict_get data ''app_version'' (JStr ''1.0.0'') of
               Inl e \<Rightarrow> Inl e
             | Inr ver \<Rightarrow>
                 let session_id = uuid_str (uuid_session dr);
                     session = \<lparr>id' = session_id, user_id = uid, device_type = dev,
                                app_version = ver, created_at = now_created dr,
                                last_activity = now_activity dr, interaction_count = 0\<rparr>;
                     s1 = s\<lparr>active_sessions := AList.update session_id session (active_sessions s)\<rparr>;
                     s2 = log_to INFO [Lit (''Nueva sesi'' @ [o_acute] @ ''n creada: ''), Lit session_id,
                                       Lit '' para usuario '', Val uid] s1
                 in Inr ((JObj [(''session_id'', JStr session_id),
                                (''status'', JStr ''created''),
                                (''message'', JStr (''Sesi'' @ [o_acute] @ ''n creada exitosamente'')),
                                (''timestamp'', JStr (now_response dr))], 201), s2)))))"

text \<open>The handler: the \<^verbatim>\<open>try\<close> block and its \<^verbatim>\<open>except Exception\<close> clause.\<close>

definition crear_sesion :: "get_json \<Rightarrow> draws \<Rightarrow> state \<Rightarrow> response \<times> state" where
  "crear_sesion req dr s =
     (case crear_sesion_try req dr s of
        Inr r \<Rightarrow> r
      | Inl e \<Rightarrow>
          ((JObj [(''error'', JStr ''Error interno del servidor''),
                  (''message'', JStr (str_exn e))], 500),
           log_to ERROR [Lit (''Error creando sesi'' @ [o_acute] @ ''n: ''), Lit (str_exn e)] s))"

section \<open>Status report\<close>

text \<open>
  \<^verbatim>\<open>app.config\<close> comes from the module \<^verbatim>\<open>config\<close>, which is not among the
  sources, so it is a parameter: for each key that \<^verbatim>\<open>status\<close> reads, \<^const>\<open>None\<close>
  when \<^verbatim>\<open>app.config.get\<close> finds nothing, and otherwise a value of the type the
  handler's use of it needs (a size to divide, a \<^verbatim>\<open>timedelta\<close>, texts).
  The module itself sets \<^verbatim>\<open>MAX_CONTENT_LENGTH\<close> to 16 MiB when it is loaded.
  \<^verbatim>\<open>env\<close> is the module-level name read from \<^verbatim>\<open>FLASK_ENV\<close>.
\<close>

record timedelta =
  days :: int
  seconds :: int
  microseconds :: int

record app_config =
  env :: string
  OPENAI_API_KEY :: "string option"
  OPENAI_MODEL :: "string option"
  MAX_CONTENT_LENGTH :: "int option"
  SESSION_LIFETIME :: "timedelta option"
  RATE_LIMIT_PER_MINUTE :: "int option"

text \<open>
  \<^verbatim>\<open>td.total_seconds() // 3600\<close>: the whole hours of a duration, rounded down.
  Python takes the quotient on floats and answers with a float (\<^verbatim>\<open>8.0\<close> for the
  default); the model takes it on the microseconds and gives the integer.
\<close>

definition whole_hours :: "timedelta \<Rightarrow> int" where
  "whole_hours td =
     ((days td * 86400 + seconds td) * 1000000 + microseconds td) div (3600 * 1000000)"

text \<open>\<^verbatim>\<open>bool(app.config.get('OPENAI_API_KEY'))\<close>.\<close>

definition openai_configured :: "app_config \<Rightarrow> bool" where
  "openai_configured cfg =
     (case OPENAI_API_KEY cfg of None \<Rightarrow> False | Some k \<Rightarrow> k \<noteq> [])"

definition status_response :: "app_config \<Rightarrow> string \<Rightarrow> state \<Rightarrow> json" where
  "status_response cfg now s =
     (let active_session_count = length (active_sessions s);
          pending_validation_count = length (pending_validations s)
      in JObj
        [(''status'', JStr ''healthy''),
         (''timestamp'', JStr now),
         (''environment'', JStr (env cfg)),
         (''services'', JObj
            [(''openai'', JStr (if openai_configured cfg then ''configured'' else ''not_configured'')),
             (''openai_model'', JStr (case OPENAI_MODEL cfg of None \<Rightarrow> ''not_set'' | Some m \<Rightarrow> m)),
             (''sessions'', JStr (str_nat active_session_count @ '' active'')),
             (''validations'', JStr (str_nat pending_validation_count @ '' pending''))]),
         (''config'', JObj
            [(''max_content_length_mb'',
                JInt ((case MAX_CONTENT_LENGTH cfg of None \<Rightarrow> 0 | Some n \<Rightarrow> n) div (1024 * 1024))),
             (''session_lifetime_hours'',
                JInt (whole_hours (case SESSION_LIFETIME cfg of
                                     None \<Rightarrow> \<lparr>days = 0, seconds = 28800, microseconds = 0\<rparr>
                                   | Some td \<Rightarrow> td))),
             (''rate_limit_per_minute'',
                JInt (case RATE_LIMIT_PER_MINUTE cfg of None \<Rightarrow> 10 | Some n \<Rightarrow> n))]),
         (''version'', JStr ''1.0.0'')])"

definition status :: "app_config \<Rightarrow> string \<Rightarrow> state \<Rightarrow> response \<times> state" where
  "status cfg now s =
     (let s1 = log_to INFO [Lit ''Status check requested''] s
      in ((status_response cfg now s1, 200), s1))"

section \<open>Ping, error handlers, logging around a request\<close>

definition ping :: "string \<Rightarrow> state \<Rightarrow> response \<times> state" where
  "ping now s =
     ((JObj [(''status'', JStr ''ok''),
             (''message'', JStr ''Server is running''),
             (''timestamp'', JStr now)], 200),
      log_to INFO [Lit ''Ping request received''] s)"

definition bad_request :: "exn \<Rightarrow> string \<Rightarrow> state \<Rightarrow> response \<times> state" where
  "bad_request error now s =
     ((JObj [(''error'', JStr ''Bad Request''),
             (''message'', JStr ''The request data is malformed or invalid''),
             (''timestamp'', JStr now)], 400),
      log_to WARNING [Lit ''Bad request: '', Lit (str_exn error)] s)"

definition not_found :: "exn \<Rightarrow> string \<Rightarrow> string \<Rightarrow> state \<Rightarrow> response \<times> state" where
  "not_found error url now s =
     ((JObj [(''error'', JStr ''Not Found''),
             (''message'', JStr ''The requested endpoint does not exist''),
             (''timestamp'', JStr now)], 404),
      log_to WARNING [Lit ''Endpoint not found: '', Lit url] s)"

definition internal_error :: "exn \<Rightarrow> string \<Rightarrow> state \<Rightarrow> response \<times> state" where
  "internal_error error now s =
     ((JObj [(''error'', JStr ''Internal Server Error''),
             (''message'', JStr ''An unexpected error occurred. Please try again later.''),
             (''timestamp'', JStr now)], 500),
      log_to ERROR [Lit ''Internal server error: '', Lit (str_exn error)] s)"

definition log_request_info :: "string \<Rightarrow> string \<Rightarrow> string \<Rightarrow> state \<Rightarrow> state" where
  "log_request_info method url remote_addr s =
     log_to INFO [Lit ''Request: '', Lit method, Lit '' '', Lit url, Lit '' from '', Lit remote_addr] s"

definition log_response_info :: "response \<Rightarrow> string \<Rightarrow> string \<Rightarrow> state \<Rightarrow> response \<times> state" where
  "log_response_info resp method url s =
     (resp, log_to INFO [Lit ''Response: '', Lit (str_nat (snd resp)), Lit '' for '',
                         Lit method, Lit '' '', Lit url] s)"

section \<open>Runs of the process\<close>

text \<open>
  The state when the module is loaded: both dicts empty, and one log line for the
  optional import of the chat routes (\<^const>\<open>None\<close> when it succeeded, the
  ImportError otherwise).
\<close>

definition startup :: "exn option \<Rightarrow> state" where
  "startup imp =
     log_to (case imp of None \<Rightarrow> INFO | Some e \<Rightarrow> WARNING)
            (case imp of None \<Rightarrow> [Lit ''Chat routes registered successfully'']
                        | Some e \<Rightarrow> [Lit ''Could not import chat routes: '', Lit (str_exn e)])
            \<lparr>active_sessions = [], pending_validations = [], logger = []\<rparr>"

text \<open>One call of a function of the module, with what it receives.\<close>

datatype operation =
    Ping string
  | Status string
  | Crear_sesion get_json draws
  | Bad_request exn string
  | Not_found exn string string
  | Internal_error exn string
  | Log_request_info string string string
  | Log_response_info response string string

fun run :: "app_config \<Rightarrow> operation \<Rightarrow> state \<Rightarrow> state" where
  "run cfg (Ping now) s = snd (ping now s)"
| "run cfg (Status now) s = snd (status cfg now s)"
| "run cfg (Crear_sesion req dr) s = snd (crear_sesion req dr s)"
| "run cfg (Bad_request e now) s = snd (bad_request e now s)"
| "run cfg (Not_found e url now) s = snd (not_found e url now s)"
| "run cfg (Internal_error e now) s = snd (internal_error e now s)"
| "run cfg (Log_request_info m url a) s = log_request_info m url a s"
| "run cfg (Log_response_info r m url) s = snd (log_response_info r m url s)"

fun run_all :: "app_config \<Rightarrow> operation list \<Rightarrow> state \<Rightarrow> state" where
  "run_all cfg [] s = s"
| "run_all cfg (op # ops) s = run_all cfg ops (run cfg op s)"

section \<open>Reading a response\<close>

text \<open>The value under a path of keys in a JSON object, if there is one.\<close>

fun lookup :: "string list \<Rightarrow> json \<Rightarrow> json option" where
  "lookup [] v = Some v"
| "lookup (k # ks) (JObj kvs) = (case map_of kvs k of None \<Rightarrow> None | Some v \<Rightarrow> lookup ks v)"
| "lookup (k # ks) v = None"

text \<open>Whether a parsed payload is a JSON object (a Python dict).\<close>

fun is_object :: "json \<Rightarrow> bool" where
  "is_object (JObj kvs) = True"
| "is_object v = False"

text \<open>Inputs used to run the handlers on examples.\<close>

definition draws0 :: draws where
  "draws0 = \<lparr>uuid_user = 0x0123456789ab4def8123456789abcdef,
             uuid_session = 0x9f1c2b3a4d5e4f60a1b2c3d4e5f60718,
             now_created = ''2024-05-01T10:00:00.000123'',
             now_activity = ''2024-05-01T10:00:00.000125'',
             now_response = ''2024-05-01T10:00:00.000310''\<rparr>"

definition state0 :: state where
  "state0 = \<lparr>active_sessions = [], pending_validations = [], logger = []\<rparr>"

definition config0 :: app_config where
  "config0 = \<lparr>env = ''development'', OPENAI_API_KEY = None, OPENAI_MODEL = None,
              MAX_CONTENT_LENGTH = None, SESSION_LIFETIME = None,
              RATE_LIMIT_PER_MINUTE = None\<rparr>"

definition config1 :: app_config where
  "config1 = \<lparr>env = ''production'', OPENAI_API_KEY = Some ''sk-test-key'', OPENAI_MODEL = None,
              MAX_CONTENT_LENGTH = Some 16777216, SESSION_LIFETIME = None,
              RATE_LIMIT_PER_MINUTE = None\<rparr>"

text \<open>
  The invariant of the registry used in the proofs: the keys of the dict are pairwise
  different and every record is stored under its own \<^verbatim>\<open>id\<close>.
\<close>

definition registry_ok :: "(string \<times> session_data) list \<Rightarrow> bool" where
  "registry_ok al = (distinct (map fst al) \<and> (\<forall>k r. map_of al k = Some r \<longrightarrow> id' r = k))"

section \<open>The three outcomes of session creation\<close>

lemma crear_sesion_on_object:
  "kvs \<noteq> [] \<Longrightarrow>
   crear_sesion (Returns (JObj kvs)) dr s =
     ((JObj [(''session_id'', JStr (uuid_str (uuid_session dr))),
             (''status'', JStr ''created''),
             (''message'', JStr (''Sesi'' @ [o_acute] @ ''n creada exitosamente'')),
             (''timestamp'', JStr (now_response dr))], 201),
      s\<lparr>active_sessions :=
           AList.update (uuid_str (uuid_session dr))
             \<lparr>id' = uuid_str (uuid_session dr),
              user_id = (case map_of kvs ''user_id'' of
                           None \<Rightarrow> JStr (''user_'' @ take 8 (uuid_hex (uuid_user dr)))
                         | Some v \<Rightarrow> v),
              device_type = (case map_of kvs ''device_type'' of None \<Rightarrow> JStr ''unknown'' | Some v \<Rightarrow> v),
              app_version = (case map_of kvs ''app_version'' of None \<Rightarrow> JStr ''1.0.0'' | Some v \<Rightarrow> v),
              created_at = now_created dr,
              last_activity = now_activity dr,
              interaction_count = 0\<rparr>
             (active_sessions s),
         logger := logger s @
           [(INFO, [Lit (''Nueva sesi'' @ [o_acute] @ ''n creada: ''), Lit (uuid_str (uuid_session dr)),
                    Lit '' para usuario '',
                    Val (case map_of kvs ''user_id'' of
                           None \<Rightarrow> JStr (''user_'' @ take 8 (uuid_hex (uuid_user dr)))
                         | Some v \<Rightarrow> v)])]\<rparr>)"
  by (simp add: crear_sesion_def crear_sesion_try_def log_to_def Let_def split: option.split)

lemma crear_sesion_on_non_object:
  "truthy data \<Longrightarrow> \<not> is_object data \<Longrightarrow>
   crear_sesion (Returns data) dr s =
     ((JObj [(''error'', JStr ''Error interno del servidor''),
             (''message'', JStr ([CHR 0x27] @ type_name data @ [CHR 0x27] @ '' object has no attribute ''
                                 @ [CHR 0x27] @ ''get'' @ [CHR 0x27]))], 500),
      s\<lparr>logger := logger s @
           [(ERROR, [Lit (''Error creando sesi'' @ [o_acute] @ ''n: ''),
                     Lit ([CHR 0x27] @ type_name data @ [CHR 0x27] @ '' object has no attribute ''
                          @ [CHR 0x27] @ ''get'' @ [CHR 0x27])])]\<rparr>)"
  by (cases data) (simp_all add: crear_sesion_def crear_sesion_try_def log_to_def)

lemma crear_sesion_on_raise:
  "crear_sesion (Raises e) dr s =
     ((JObj [(''error'', JStr ''Error interno del servidor''),
             (''message'', JStr (str_exn e))], 500),
      s\<lparr>logger := logger s @
           [(ERROR, [Lit (''Error creando sesi'' @ [o_acute] @ ''n: ''), Lit (str_exn e)])]\<rparr>)"
  by (simp add: crear_sesion_def crear_sesion_try_def log_to_def)


section \<open>The registered error handlers\<close>

lemma registered_handlers_fields:
  "lookup [k] (fst (fst (bad_request e now s))) \<noteq> None
   \<and> lookup [k] (fst (fst (not_found e url now s))) \<noteq> None
   \<and> lookup [k] (fst (fst (internal_error e now s))) \<noteq> None"
  if "k \<in> {''error'', ''message'', ''timestamp''}"
  using that by (auto simp add: bad_request_def not_found_def internal_error_def)

lemma internal_error_message:
  "lookup [''message''] (fst (fst (internal_error e now s))) =
     Some (JStr ''An unexpected error occurred. Please try again later.'')"
  by (simp add: internal_error_def)

section \<open>The registry under every operation\<close>

lemma registry_ok_update:
  "registry_ok al \<Longrightarrow> id' r = k \<Longrightarrow> registry_ok (AList.update k r al)"
  by (simp add: registry_ok_def distinct_update update_conv')

lemma crear_sesion_sessions:
  "active_sessions (snd (crear_sesion req dr s)) = active_sessions s \<or>
   (\<exists>r. id' r = uuid_str (uuid_session dr) \<and>
        active_sessions (snd (crear_sesion req dr s)) =
          AList.update (uuid_str (uuid_session dr)) r (active_sessions s))"
proof (cases req)
  case (Raises e)
  then show ?thesis by (simp add: crear_sesion_on_raise)
next
  case (Returns data)
  show ?thesis
  proof (cases "truthy data")
    case False
    with Returns show ?thesis
      by (simp add: crear_sesion_def crear_sesion_try_def)
  next
    case True
    show ?thesis
    proof (cases data)
      case (JObj kvs)
      with True have "kvs \<noteq> []" by simp
      with JObj Returns show ?thesis
        apply (simp add: crear_sesion_on_object)
        apply (rule disjI2)
        apply (intro exI conjI)
         prefer 2
         apply (rule refl)
        apply simp
        done
    qed (use True Returns in \<open>simp_all add: crear_sesion_on_non_object\<close>)
  qed
qed

lemma run_sessions:
  "active_sessions (run cfg op s) = active_sessions s \<or>
   (\<exists>r. active_sessions (run cfg op s) = AList.update (id' r) r (active_sessions s))"
proof (cases op)
  case (Crear_sesion req dr)
  from crear_sesion_sessions [of req dr s] show ?thesis
  proof
    assume "active_sessions (snd (crear_sesion req dr s)) = active_sessions s"
    with Crear_sesion show ?thesis by simp
  next
    assume "\<exists>r. id' r = uuid_str (uuid_session dr) \<and>
              active_sessions (snd (crear_sesion req dr s)) =
                AList.update (uuid_str (uuid_session dr)) r (active_sessions s)"
    then obtain r where "id' r = uuid_str (uuid_session dr)"
      and "active_sessions (snd (crear_sesion req dr s)) =
             AList.update (uuid_str (uuid_session dr)) r (active_sessions s)"
      by blast
    with Crear_sesion
    have "active_sessions (run cfg op s) = AList.update (id' r) r (active_sessions s)"
      by simp
    then show ?thesis by blast
  qed
qed (simp_all add: ping_def status_def bad_request_def not_found_def internal_error_def
       log_request_info_def log_response_info_def log_to_def Let_def)

lemma registry_ok_run:
  "registry_ok (active_sessions s) \<Longrightarrow> registry_ok (active_sessions (run cfg op s))"
  using run_sessions [of cfg op s] by (auto intro: registry_ok_update)

lemma registry_ok_run_all:
  "registry_ok (active_sessions s) \<Longrightarrow> registry_ok (active_sessions (run_all cfg ops s))"
  by (induction ops arbitrary: s) (simp_all add: registry_ok_run)

lemma registry_ok_startup: "registry_ok (active_sessions (startup imp))"
  by (simp add: startup_def log_to_def registry_ok_def)

lemma id_kept_run:
  assumes "registry_ok (active_sessions s)" and "map_of (active_sessions s) k = Some r"
  shows "\<exists>r'. map_of (active_sessions (run cfg op s)) k = Some r' \<and> id' r' = id' r"
  using run_sessions [of cfg op s] assms
  by (auto simp add: registry_ok_def update_conv')

lemma id_kept_run_all:
  assumes "registry_ok (active_sessions s)" and "map_of (active_sessions s) k = Some r"
  shows "\<exists>r'. map_of (active_sessions (run_all cfg ops s)) k = Some r' \<and> id' r' = id' r"
  using assms
proof (induction ops arbitrary: s r)
  case Nil
  then show ?case by simp
next
  case (Cons op ops)
  from id_kept_run [OF Cons.prems, of cfg op]
  obtain r1 where r1: "map_of (active_sessions (run cfg op s)) k = Some r1" "id' r1 = id' r"
    by blast
  from Cons.IH [OF registry_ok_run [OF Cons.prems(1)] r1(1), of ] r1(2)
  show ?case by simp
qed

lemma registry_ok_ids:
  assumes "registry_ok al"
  shows "distinct (map (id' \<circ> snd) al)" and "\<forall>(k, r) \<in> set al. id' r = k"
proof -
  from assms have d: "distinct (map fst al)" and m: "\<And>k r. map_of al k = Some r \<Longrightarrow> id' r = k"
    by (simp_all add: registry_ok_def)
  show b: "\<forall>(k, r) \<in> set al. id' r = k"
    using d m by (auto simp add: map_of_eq_Some_iff)
  then have eq: "map (id' \<circ> snd) al = map fst al" by auto
  show "distinct (map (id' \<circ> snd) al)" unfolding eq by (rule d)
qed

section \<open>The status response, field by field\<close>

lemma openai_configured_iff:
  "openai_configured cfg \<longleftrightarrow> (\<exists>k. OPENAI_API_KEY cfg = Some k \<and> k \<noteq> [])"
  by (simp add: openai_configured_def split: option.split)

lemma status_eq:
  "status cfg now s =
     ((status_response cfg now s, 200), s\<lparr>logger := logger s @ [(INFO, [Lit ''Status check requested''])]\<rparr>)"
  by (simp add: status_def status_response_def log_to_def Let_def)

lemma status_response_label:
  "lookup [''status''] (status_response cfg now s) = Some (JStr ''healthy'')"
  by (simp add: status_response_def)

lemma status_response_openai:
  "lookup [''services'', ''openai''] (status_response cfg now s) =
     Some (JStr (if openai_configured cfg then ''configured'' else ''not_configured''))"
  by (simp add: status_response_def)

lemma status_response_model:
  "lookup [''services'', ''openai_model''] (status_response cfg now s) =
     Some (JStr (case OPENAI_MODEL cfg of None \<Rightarrow> ''not_set'' | Some m \<Rightarrow> m))"
  by (simp add: status_response_def)



lemma status_response_rate_limit:
  "lookup [''config'', ''rate_limit_per_minute''] (status_response cfg now s) =
     Some (JInt (case RATE_LIMIT_PER_MINUTE cfg of None \<Rightarrow> 10 | Some n \<Rightarrow> n))"
  by (simp add: status_response_def)

lemma status_response_key:
  "openai_configured cfg \<Longrightarrow> k' \<noteq> [] \<Longrightarrow>
   status_response (cfg\<lparr>OPENAI_API_KEY := Some k'\<rparr>) now s = status_response cfg now s"
  by (simp add: status_response_def openai_configured_def)

section \<open>Hexadecimal digits of an identifier\<close>

lemma hex_digit_in: "hex_digit n \<in> set ''0123456789abcdef''"
proof -
  have "n mod 16 < length ''0123456789abcdef''" by simp
  then show ?thesis unfolding hex_digit_def by (rule nth_mem)
qed

lemma uuid_hex_length: "length (uuid_hex u) = 32"
  by (simp add: uuid_hex_def)

lemma uuid_hex_chars: "set (uuid_hex u) \<subseteq> set ''0123456789abcdef''"
  unfolding uuid_hex_def using hex_digit_in by auto

lemma user_placeholder_form:
  "length (take 8 (uuid_hex u)) = 8 \<and> set (take 8 (uuid_hex u)) \<subseteq> set ''0123456789abcdef''"
proof
  show "length (take 8 (uuid_hex u)) = 8" by (simp add: uuid_hex_length)
  have "set (take 8 (uuid_hex u)) \<subseteq> set (uuid_hex u)" by (rule set_take_subset)
  also note uuid_hex_chars
  finally show "set (take 8 (uuid_hex u)) \<subseteq> set ''0123456789abcdef''" .
qed

section \<open>Results\<close>



text \<open>
  C2. The body of the 500 response of \<^verbatim>\<open>crear_sesion\<close> carries the text of the
  exception: whatever \<^verbatim>\<open>get_json\<close> raises goes into \<^verbatim>\<open>message\<close> unchanged, and
  for the payload \<^verbatim>\<open>7\<close> the body names the Python type and attribute of the failed
  call.
\<close>

theorem crear_sesion_500_body_has_exception_text:
  "lookup [''message''] (fst (fst (crear_sesion (Raises e) dr s))) = Some (JStr (str_exn e))
   \<and> fst (crear_sesion (Returns (JInt 7)) draws0 state0) =
       (JObj [(''error'', JStr ''Error interno del servidor''),
              (''message'', JStr ([CHR 0x27] @ ''int'' @ [CHR 0x27] @ '' object has no attribute ''
                                  @ [CHR 0x27] @ ''get'' @ [CHR 0x27]))], 500)"
  by (simp add: crear_sesion_on_raise crear_sesion_on_non_object)

text \<open>
  C3. The error bodies built inside \<^verbatim>\<open>crear_sesion\<close>: the 400 body for the payload
  \<^verbatim>\<open>{}\<close> has the field \<^verbatim>\<open>error\<close> only, and the 500 body for the payload
  \<^verbatim>\<open>true\<close> has \<^verbatim>\<open>error\<close> and \<^verbatim>\<open>message\<close> but no \<^verbatim>\<open>timestamp\<close>.
\<close>

theorem crear_sesion_error_bodies_fields:
  "fst (crear_sesion (Returns (JObj [])) draws0 state0) =
       (JObj [(''error'', JStr ''Datos requeridos'')], 400)
   \<and> lookup [''message''] (fst (fst (crear_sesion (Returns (JObj [])) draws0 state0))) = None
   \<and> lookup [''timestamp''] (fst (fst (crear_sesion (Returns (JObj [])) draws0 state0))) = None
   \<and> snd (fst (crear_sesion (Returns (JBool True)) draws0 state0)) = 500
   \<and> lookup [''timestamp''] (fst (fst (crear_sesion (Returns (JBool True)) draws0 state0))) = None"
  by (simp add: crear_sesion_on_non_object) (simp add: crear_sesion_def crear_sesion_try_def)

text \<open>
  C4. A body that is not JSON text makes \<^verbatim>\<open>get_json\<close> raise the framework's
  BadRequest; \<^verbatim>\<open>except Exception\<close> catches it and \<^verbatim>\<open>crear_sesion\<close> answers 500.
\<close>

theorem crear_sesion_malformed_body_500:
  "fst (crear_sesion
         (Raises (Exn ''400 Bad Request: The browser (or proxy) sent a request that this server could not understand.''))
         draws0 state0) =
     (JObj [(''error'', JStr ''Error interno del servidor''),
            (''message'', JStr ''400 Bad Request: The browser (or proxy) sent a request that this server could not understand.'')],
      500)"
  by (simp add: crear_sesion_on_raise)



text \<open>
  C6. In every state the process reaches from its start, no two records of the
  registry have the same \<^verbatim>\<open>id\<close>, every record is stored under its own
  \<^verbatim>\<open>id\<close>, and whatever operations run next, a key of the registry stays a key
  and the record under it has the \<^verbatim>\<open>id\<close> it had.
\<close>

theorem session_ids_unique_and_kept:
  assumes "s = run_all cfg ops (startup imp)"
  shows "distinct (map (id' \<circ> snd) (active_sessions s))
       \<and> (\<forall>(k, r) \<in> set (active_sessions s). id' r = k)
       \<and> (\<forall>k r. map_of (active_sessions s) k = Some r \<longrightarrow>
            (\<exists>r'. map_of (active_sessions (run_all cfg ops' s)) k = Some r' \<and> id' r' = id' r))"
proof -
  have ok: "registry_ok (active_sessions s)"
    unfolding assms by (rule registry_ok_run_all [OF registry_ok_startup])
  from registry_ok_ids [OF ok] id_kept_run_all [OF ok] show ?thesis by blast
qed

theorem session_ids_witness:
  "map_of (active_sessions (run_all config0
       [Ping ''2024-05-01T09:59:59'',
        Crear_sesion (Returns (JObj [(''user_id'', JStr ''u1'')])) draws0] (startup None)))
     ''9f1c2b3a-4d5e-4f60-a1b2-c3d4e5f60718''
   = Some \<lparr>id' = ''9f1c2b3a-4d5e-4f60-a1b2-c3d4e5f60718'', user_id = JStr ''u1'',
           device_type = JStr ''unknown'', app_version = JStr ''1.0.0'',
           created_at = ''2024-05-01T10:00:00.000123'',
           last_activity = ''2024-05-01T10:00:00.000125'', interaction_count = 0\<rparr>
   \<and> (\<exists>r'. map_of (active_sessions (run_all config0
                 [Status ''2024-05-01T10:00:01'',
                  Crear_sesion (Returns (JObj [(''user_id'', JStr ''u2'')])) draws0]
                 (run_all config0
                   [Ping ''2024-05-01T09:59:59'',
                    Crear_sesion (Returns (JObj [(''user_id'', JStr ''u1'')])) draws0] (startup None))))
               ''9f1c2b3a-4d5e-4f60-a1b2-c3d4e5f60718'' = Some r'
           \<and> id' r' = ''9f1c2b3a-4d5e-4f60-a1b2-c3d4e5f60718'')
   \<and> distinct (map (id' \<circ> snd) (active_sessions (run_all config0
       [Ping ''2024-05-01T09:59:59'',
        Crear_sesion (Returns (JObj [(''user_id'', JStr ''u1'')])) draws0] (startup None))))"
proof -
  have u: "uuid_str (uuid_session draws0) = ''9f1c2b3a-4d5e-4f60-a1b2-c3d4e5f60718''"
    by code_simp
  have a: "active_sessions (run_all config0
       [Ping ''2024-05-01T09:59:59'',
        Crear_sesion (Returns (JObj [(''user_id'', JStr ''u1'')])) draws0] (startup None))
     = [(''9f1c2b3a-4d5e-4f60-a1b2-c3d4e5f60718'',
         \<lparr>id' = ''9f1c2b3a-4d5e-4f60-a1b2-c3d4e5f60718'', user_id = JStr ''u1'',
           device_type = JStr ''unknown'', app_version = JStr ''1.0.0'',
           created_at = ''2024-05-01T10:00:00.000123'',
           last_activity = ''2024-05-01T10:00:00.000125'', interaction_count = 0\<rparr>)]"
    by (simp add: crear_sesion_on_object ping_def startup_def log_to_def u)
       (simp add: draws0_def)
  have m: "map_of (active_sessions (run_all config0
       [Ping ''2024-05-01T09:59:59'',
        Crear_sesion (Returns (JObj [(''user_id'', JStr ''u1'')])) draws0] (startup None)))
     ''9f1c2b3a-4d5e-4f60-a1b2-c3d4e5f60718''
   = Some \<lparr>id' = ''9f1c2b3a-4d5e-4f60-a1b2-c3d4e5f60718'', user_id = JStr ''u1'',
           device_type = JStr ''unknown'', app_version = JStr ''1.0.0'',
           created_at = ''2024-05-01T10:00:00.000123'',
           last_activity = ''2024-05-01T10:00:00.000125'', interaction_count = 0\<rparr>"
    unfolding a by simp
  note th = session_ids_unique_and_kept [OF refl, of config0
       "[Ping ''2024-05-01T09:59:59'',
        Crear_sesion (Returns (JObj [(''user_id'', JStr ''u1'')])) draws0]" None
       "[Status ''2024-05-01T10:00:01'',
                  Crear_sesion (Returns (JObj [(''user_id'', JStr ''u2'')])) draws0]"]
  from th have d: "distinct (map (id' \<circ> snd) (active_sessions (run_all config0
       [Ping ''2024-05-01T09:59:59'',
        Crear_sesion (Returns (JObj [(''user_id'', JStr ''u1'')])) draws0] (startup None))))"
    by (rule conjunct1)
  from th m have k: "\<exists>r'. map_of (active_sessions (run_all config0
                 [Status ''2024-05-01T10:00:01'',
                  Crear_sesion (Returns (JObj [(''user_id'', JStr ''u2'')])) draws0]
                 (run_all config0
                   [Ping ''2024-05-01T09:59:59'',
                    Crear_sesion (Returns (JObj [(''user_id'', JStr ''u1'')])) draws0] (startup None))))
               ''9f1c2b3a-4d5e-4f60-a1b2-c3d4e5f60718'' = Some r'
           \<and> id' r' = id' \<lparr>id' = ''9f1c2b3a-4d5e-4f60-a1b2-c3d4e5f60718'', user_id = JStr ''u1'',
           device_type = JStr ''unknown'', app_version = JStr ''1.0.0'',
           created_at = ''2024-05-01T10:00:00.000123'',
           last_activity = ''2024-05-01T10:00:00.000125'', interaction_count = 0\<rparr>"
    by blast
  from k have k': "\<exists>r'. map_of (active_sessions (run_all config0
                 [Status ''2024-05-01T10:00:01'',
                  Crear_sesion (Returns (JObj [(''user_id'', JStr ''u2'')])) draws0]
                 (run_all config0
                   [Ping ''2024-05-01T09:59:59'',
                    Crear_sesion (Returns (JObj [(''user_id'', JStr ''u1'')])) draws0] (startup None))))
               ''9f1c2b3a-4d5e-4f60-a1b2-c3d4e5f60718'' = Some r'
           \<and> id' r' = ''9f1c2b3a-4d5e-4f60-a1b2-c3d4e5f60718''"
    by (simp del: run_all.simps)
  from m k' d show ?thesis by (intro conjI)
qed

text \<open>
  C7. The record stored for the payload \<^verbatim>\<open>{"device_type": "android"}\<close> when the
  clock moves between the two readings taken for it: the defaults and the counter are
  as specified, and \<^verbatim>\<open>created_at\<close> and \<^verbatim>\<open>last_activity\<close> hold the two different
  readings.
\<close>

theorem crear_sesion_record_two_clock_readings:
  "active_sessions (snd (crear_sesion (Returns (JObj [(''device_type'', JStr ''android'')])) draws0 state0))
     = [(''9f1c2b3a-4d5e-4f60-a1b2-c3d4e5f60718'',
         \<lparr>id' = ''9f1c2b3a-4d5e-4f60-a1b2-c3d4e5f60718'',
          user_id = JStr ''user_01234567'',
          device_type = JStr ''android'',
          app_version = JStr ''1.0.0'',
          created_at = ''2024-05-01T10:00:00.000123'',
          last_activity = ''2024-05-01T10:00:00.000125'',
          interaction_count = 0\<rparr>)]
   \<and> ''2024-05-01T10:00:00.000123'' \<noteq> ''2024-05-01T10:00:00.000125''"
proof -
  have u: "uuid_str (uuid_session draws0) = ''9f1c2b3a-4d5e-4f60-a1b2-c3d4e5f60718''"
    by code_simp
  have h: "take 8 (uuid_hex (uuid_user draws0)) = ''01234567''"
    by code_simp
  show ?thesis
    by (simp add: crear_sesion_on_object u h state0_def) (simp add: draws0_def)
qed

text \<open>
  C8. The snapshot of \<^verbatim>\<open>status\<close>: status 200, the label \<^verbatim>\<open>healthy\<close>;
  \<^verbatim>\<open>services.openai\<close> is \<^verbatim>\<open>configured\<close> exactly when a non-empty credential is
  set and \<^verbatim>\<open>not_configured\<close> otherwise; the model name is \<^verbatim>\<open>not_set\<close> and the rate
  limit 10 when not configured; and replacing the credential by any other non-empty
  one changes nothing in the result, so the response does not carry its value.
\<close>

theorem status_snapshot:
  assumes "status cfg now s = ((body, code), s')"
  shows "code = 200
       \<and> lookup [''status''] body = Some (JStr ''healthy'')
       \<and> lookup [''services'', ''openai''] body =
           Some (JStr (if \<exists>k. OPENAI_API_KEY cfg = Some k \<and> k \<noteq> [] then ''configured'' else ''not_configured''))
       \<and> (OPENAI_MODEL cfg = None \<longrightarrow> lookup [''services'', ''openai_model''] body = Some (JStr ''not_set''))
       \<and> (RATE_LIMIT_PER_MINUTE cfg = None \<longrightarrow> lookup [''config'', ''rate_limit_per_minute''] body = Some (JInt 10))
       \<and> (\<forall>k k'. OPENAI_API_KEY cfg = Some k \<and> k \<noteq> [] \<and> k' \<noteq> [] \<longrightarrow>
             status (cfg\<lparr>OPENAI_API_KEY := Some k'\<rparr>) now s = ((body, code), s'))"
proof -
  from assms have b: "body = status_response cfg now s" and c: "code = 200"
    and s': "s' = s\<lparr>logger := logger s @ [(INFO, [Lit ''Status check requested''])]\<rparr>"
    by (simp_all add: status_eq)
  have key: "status (cfg\<lparr>OPENAI_API_KEY := Some k'\<rparr>) now s = ((body, code), s')"
    if "OPENAI_API_KEY cfg = Some k" "k \<noteq> []" "k' \<noteq> []" for k k'
  proof -
    from that have "openai_configured cfg" by (simp add: openai_configured_iff)
    with that show ?thesis by (simp add: status_eq status_response_key b c s')
  qed
  show ?thesis
    unfolding b c
    by (intro conjI)
       (simp_all add: status_response_label status_response_openai status_response_model
          status_response_rate_limit openai_configured_iff key [unfolded b c])
qed

theorem status_snapshot_witness:
  "status config1 ''2024-05-01T10:00:00'' state0 =
     ((JObj [(''status'', JStr ''healthy''),
             (''timestamp'', JStr ''2024-05-01T10:00:00''),
             (''environment'', JStr ''production''),
             (''services'', JObj [(''openai'', JStr ''configured''),
                                  (''openai_model'', JStr ''not_set''),
                                  (''sessions'', JStr ''0 active''),
                                  (''validations'', JStr ''0 pending'')]),
             (''config'', JObj [(''max_content_length_mb'', JInt 16),
                                (''session_lifetime_hours'', JInt 8),
                                (''rate_limit_per_minute'', JInt 10)]),
             (''version'', JStr ''1.0.0'')], 200),
      state0\<lparr>logger := [(INFO, [Lit ''Status check requested''])]\<rparr>)
   \<and> lookup [''services'', ''openai''] (fst (fst (status config1 ''2024-05-01T10:00:00'' state0)))
       = Some (JStr ''configured'')
   \<and> lookup [''services'', ''openai_model''] (fst (fst (status config1 ''2024-05-01T10:00:00'' state0)))
       = Some (JStr ''not_set'')
   \<and> lookup [''config'', ''rate_limit_per_minute''] (fst (fst (status config1 ''2024-05-01T10:00:00'' state0)))
       = Some (JInt 10)
   \<and> status (config1\<lparr>OPENAI_API_KEY := Some ''another-key''\<rparr>) ''2024-05-01T10:00:00'' state0
       = status config1 ''2024-05-01T10:00:00'' state0"
proof -
  have e: "status config1 ''2024-05-01T10:00:00'' state0 =
     ((JObj [(''status'', JStr ''healthy''),
             (''timestamp'', JStr ''2024-05-01T10:00:00''),
             (''environment'', JStr ''production''),
             (''services'', JObj [(''openai'', JStr ''configured''),
                                  (''openai_model'', JStr ''not_set''),
                                  (''sessions'', JStr ''0 active''),
                                  (''validations'', JStr ''0 pending'')]),
             (''config'', JObj [(''max_content_length_mb'', JInt 16),
                                (''session_lifetime_hours'', JInt 8),
                                (''rate_limit_per_minute'', JInt 10)]),
             (''version'', JStr ''1.0.0'')], 200),
      state0\<lparr>logger := [(INFO, [Lit ''Status check requested''])]\<rparr>)"
    by (simp add: status_def status_response_def config1_def state0_def log_to_def
          openai_configured_def whole_hours_def str_nat.simps digit_def)
  from status_snapshot [OF e] show ?thesis
    by (simp add: e config1_def)
qed



text \<open>
  C10. A payload that is true in Python's sense but is not an object (a non-empty
  array or string, a non-zero number, \<^verbatim>\<open>true\<close>) is answered with status 500 and
  the text of the AttributeError, not with 400, and both dicts stay as they were.
\<close>

theorem crear_sesion_non_object:
  assumes "truthy data" and "\<not> is_object data"
    and "crear_sesion (Returns data) dr s = ((body, code), s')"
  shows "code = 500
       \<and> body = JObj [(''error'', JStr ''Error interno del servidor''),
                      (''message'', JStr ([CHR 0x27] @ type_name data @ [CHR 0x27]
                           @ '' object has no attribute '' @ [CHR 0x27] @ ''get'' @ [CHR 0x27]))]
       \<and> active_sessions s' = active_sessions s
       \<and> pending_validations s' = pending_validations s"
  using assms by (auto simp add: crear_sesion_on_non_object)

theorem crear_sesion_non_object_witness:
  "truthy (JArr [JInt 1]) \<and> \<not> is_object (JArr [JInt 1])
   \<and> crear_sesion (Returns (JArr [JInt 1])) draws0 state0 =
       ((JObj [(''error'', JStr ''Error interno del servidor''),
               (''message'', JStr ([CHR 0x27] @ ''list'' @ [CHR 0x27]
                           @ '' object has no attribute '' @ [CHR 0x27] @ ''get'' @ [CHR 0x27]))], 500),
        state0\<lparr>logger := [(ERROR, [Lit (''Error creando sesi'' @ [o_acute] @ ''n: ''),
                     Lit ([CHR 0x27] @ ''list'' @ [CHR 0x27]
                           @ '' object has no attribute '' @ [CHR 0x27] @ ''get'' @ [CHR 0x27])])]\<rparr>)
   \<and> active_sessions (snd (crear_sesion (Returns (JArr [JInt 1])) draws0 state0)) = []"
proof -
  have e: "crear_sesion (Returns (JArr [JInt 1])) draws0 state0 =
       ((JObj [(''error'', JStr ''Error interno del servidor''),
               (''message'', JStr ([CHR 0x27] @ ''list'' @ [CHR 0x27]
                           @ '' object has no attribute '' @ [CHR 0x27] @ ''get'' @ [CHR 0x27]))], 500),
        state0\<lparr>logger := [(ERROR, [Lit (''Error creando sesi'' @ [o_acute] @ ''n: ''),
                     Lit ([CHR 0x27] @ ''list'' @ [CHR 0x27]
                           @ '' object has no attribute '' @ [CHR 0x27] @ ''get'' @ [CHR 0x27])])]\<rparr>)"
    by (simp add: crear_sesion_def crear_sesion_try_def log_to_def state0_def)
  have t: "truthy (JArr [JInt 1])" and o: "\<not> is_object (JArr [JInt 1])" by simp_all
  from crear_sesion_non_object [OF t o e] t o e show ?thesis
    by (simp add: state0_def)
qed

end
